theory Spec2Isabelle
  imports Main "HOL-Library.Sublist" "HOL-Library.Word"
begin

section \<open>Python values\<close>

text \<open>
  A Python \<^verbatim>\<open>str\<close> is a sequence of Unicode code points, so it is modelled as a list of
  naturals. \<open>lit\<close> turns an ASCII literal of the source into such a list.
\<close>

type_synonym pystr = "nat list"

definition lit :: "string \<Rightarrow> pystr" where
  "lit s = map of_char s"

text \<open>
  The object \<^verbatim>\<open>request.get_json()\<close> returns: any parsed JSON document. A float is kept
  as its IEEE-754 binary64 bit pattern; a dict as an association list in insertion order.
\<close>

datatype pyobj =
    PNone
  | PBool bool
  | PInt int
  | PFloat "64 word"
  | PStr pystr
  | PList "pyobj list"
  | PDict "(pystr \<times> pyobj) list"

text \<open>
  The exceptions the handlers distinguish: instances of \<^verbatim>\<open>openai.RateLimitError\<close>, and
  every other instance of \<^verbatim>\<open>Exception\<close>. The argument is \<^verbatim>\<open>str(e)\<close>. Signals that derive
  from \<^verbatim>\<open>BaseException\<close> only (\<^verbatim>\<open>KeyboardInterrupt\<close>, \<^verbatim>\<open>SystemExit\<close>, \<^verbatim>\<open>GeneratorExit\<close>)
  are no instances of \<^verbatim>\<open>Exception\<close> and are not part of this type.
\<close>

datatype exn = RateLimitError pystr | OtherException pystr

fun str_exn :: "exn \<Rightarrow> pystr" where
  "str_exn (RateLimitError m) = m"
| "str_exn (OtherException m) = m"

section \<open>\<^verbatim>\<open>json.dumps\<close> with its default arguments\<close>

text \<open>The documents the program serialises: dict literals with string, int and bool values.\<close>

datatype json =
    JStr pystr
  | JInt int
  | JBool bool
  | JObj "(pystr \<times> json) list"

text \<open>\<^verbatim>\<open>sep.join(xs)\<close>\<close>

fun join_str :: "pystr \<Rightarrow> pystr list \<Rightarrow> pystr" where
  "join_str sep [] = []"
| "join_str sep [x] = x"
| "join_str sep (x # y # ys) = x @ sep @ join_str sep (y # ys)"

text \<open>Lower-case hexadecimal digit, and \<^verbatim>\<open>'{0:04x}'.format(n)\<close> for \<open>n < 0x10000\<close>.\<close>

definition hex_digit :: "nat \<Rightarrow> nat" where
  "hex_digit d = (if d < 10 then 48 + d else 87 + d)"

definition hex4 :: "nat \<Rightarrow> pystr" where
  "hex4 n = map hex_digit [n div 4096 mod 16, n div 256 mod 16, n div 16 mod 16, n mod 16]"

text \<open>
  \<^verbatim>\<open>py_encode_basestring_ascii\<close>: backslash (92) and the double quote (34) are escaped, the
  control characters with a short form use it, every other code point outside
  \<open>' '..'~'\<close> becomes \<^verbatim>\<open>\uXXXX\<close>, as a surrogate pair from \<open>0x10000\<close> on.
\<close>

definition escape_char :: "nat \<Rightarrow> pystr" where
  "escape_char c =
     (if c = 92 then [92, 92]
      else if c = 34 then [92, 34]
      else if c = 8 then [92, 98]
      else if c = 12 then [92, 102]
      else if c = 10 then [92, 110]
      else if c = 13 then [92, 114]
      else if c = 9 then [92, 116]
      else if 32 \<le> c \<and> c \<le> 126 then [c]
      else if c < 65536 then [92, 117] @ hex4 c
      else (let n = c - 65536;
                s1 = 55296 + (n div 1024) mod 1024;
                s2 = 56320 + n mod 1024
            in [92, 117] @ hex4 s1 @ [92, 117] @ hex4 s2))"

definition encode_str :: "pystr \<Rightarrow> pystr" where
  "encode_str s = [34] @ concat (map escape_char s) @ [34]"

text \<open>\<^verbatim>\<open>repr\<close> of an int: decimal digits, with a minus sign below zero.\<close>

function nat_repr :: "nat \<Rightarrow> pystr" where
  "nat_repr n = (if n < 10 then [48 + n] else nat_repr (n div 10) @ [48 + n mod 10])"
  by pat_completeness auto
termination
  by (relation "measure id") auto

declare nat_repr.simps [simp del]

definition int_repr :: "int \<Rightarrow> pystr" where
  "int_repr i = (if i < 0 then [45] @ nat_repr (nat (- i)) else nat_repr (nat i))"

fun json_dumps :: "json \<Rightarrow> pystr" where
  "json_dumps (JStr s) = encode_str s"
| "json_dumps (JInt i) = int_repr i"
| "json_dumps (JBool b) = (if b then lit ''true'' else lit ''false'')"
| "json_dumps (JObj kvs) =
     lit ''{'' @
     join_str (lit '', '') (map (\<lambda>kv. encode_str (fst kv) @ lit '': '' @ json_dumps (snd kv)) kvs) @
     lit ''}''"

text \<open>\<^verbatim>\<open>d.get(k)\<close> on a dict kept as an association list.\<close>

definition dict_get :: "('k \<times> 'v) list \<Rightarrow> 'k \<Rightarrow> 'v option" where
  "dict_get d k = map_of d k"

section \<open>Logging and the pipeline object\<close>

datatype level = INFO | WARNING | ERROR | CRITICAL

text \<open>
  A log record: level, the text of the message, and the object an f-string interpolates
  at its end when that object is a parsed request value (its \<^verbatim>\<open>str()\<close> is not rendered).
\<close>

datatype log_record = LogRecord level pystr "pyobj option"

text \<open>
  What \<^verbatim>\<open>rag_chain.stream(q)\<close> gives when it is consumed to its end: the chunks it yields, in
  order, and then either exhaustion (\<open>None\<close>) or the exception it raises. The chain ends in
  \<^verbatim>\<open>StrOutputParser()\<close>, so chunks are strings.
\<close>

type_synonym token_stream = "pystr list \<times> exn option"

record chain =
  stream :: "pyobj \<Rightarrow> token_stream"

section \<open>The generator \<^verbatim>\<open>generate_stream\<close>\<close>

text \<open>What the generator does when the server consumes it, in order.\<close>

datatype gen_action = Yield pystr | Sleep | Log log_record

text \<open>The body of the \<^verbatim>\<open>for\<close> loop, over the chunks the stream yields.\<close>

fun stream_loop :: "pystr list \<Rightarrow> gen_action list" where
  "stream_loop [] = []"
| "stream_loop (chunk # rest) =
     (if chunk \<noteq> []
      then [Yield (lit ''data: '' @ json_dumps (JObj [(lit ''token'', JStr chunk)]) @ [10, 10]),
            Sleep]
      else []) @ stream_loop rest"

definition rate_limit_payload :: json where
  "rate_limit_payload =
     JObj [(lit ''error'', JStr (lit ''API rate limit exceeded during stream. Please try again later.'')),
           (lit ''code'', JInt 429)]"

definition stream_error_payload :: "exn \<Rightarrow> json" where
  "stream_error_payload e =
     JObj [(lit ''error'', JStr (lit ''An error occurred during streaming: '' @ str_exn e))]"

fun stream_except :: "exn \<Rightarrow> gen_action list" where
  "stream_except (RateLimitError m) =
     [Log (LogRecord WARNING (lit ''Rate limit exceeded during stream: '' @ m) None),
      Yield (lit ''event: error'' @ [10] @ lit ''data: '' @ json_dumps rate_limit_payload @ [10, 10])]"
| "stream_except (OtherException m) =
     [Log (LogRecord ERROR (lit ''Error during stream generation: '' @ m) None),
      Yield (lit ''event: error'' @ [10] @ lit ''data: '' @
             json_dumps (stream_error_payload (OtherException m)) @ [10, 10])]"

definition generate_stream :: "chain \<Rightarrow> pyobj \<Rightarrow> gen_action list" where
  "generate_stream rag_chain user_query =
     (case stream rag_chain user_query of
        (chunks, raised) \<Rightarrow>
          stream_loop chunks @
          (case raised of None \<Rightarrow> [] | Some e \<Rightarrow> stream_except e) @
          [Log (LogRecord INFO (lit ''Stream ended for query: '') (Some user_query))])"

text \<open>The body of the response: the strings the generator yields, in order.\<close>

fun sse_body :: "gen_action list \<Rightarrow> pystr list" where
  "sse_body [] = []"
| "sse_body (Yield s # as) = s # sse_body as"
| "sse_body (a # as) = sse_body as"

text \<open>
  The wire records in the words of the specification: a token record is
  \<^verbatim>\<open>data: {"token": <chunk>}\<close> and an error record is \<^verbatim>\<open>event: error\<close>, a line break and
  \<^verbatim>\<open>data: <payload>\<close>, each followed by a blank line; \<open><chunk>\<close> is the chunk as a JSON string.
\<close>

definition token_record :: "pystr \<Rightarrow> pystr" where
  "token_record chunk = lit ''data: {\"token\": '' @ encode_str chunk @ lit ''}'' @ [10, 10]"

definition error_record :: "json \<Rightarrow> pystr" where
  "error_record payload = lit ''event: error'' @ [10] @ lit ''data: '' @ json_dumps payload @ [10, 10]"

definition is_token_record :: "pystr \<Rightarrow> bool" where
  "is_token_record r = prefix (lit ''data: {\"token\": '') r"

definition is_error_record :: "pystr \<Rightarrow> bool" where
  "is_error_record r = prefix (lit ''event: error'') r"

text \<open>The field of a JSON object, as a client reads it after parsing.\<close>

fun json_get :: "json \<Rightarrow> pystr \<Rightarrow> json option" where
  "json_get (JObj kvs) k = dict_get kvs k"
| "json_get v k = None"

section \<open>The context formatter \<^verbatim>\<open>format_docs\<close>\<close>

text \<open>A retrieved fragment: a LangChain \<^verbatim>\<open>Document\<close>.\<close>

record document =
  page_content :: pystr
  metadata :: "(pystr \<times> pyobj) list"

text \<open>\<^verbatim>\<open>d.get(k, default)\<close>\<close>

definition dict_get_default :: "('k \<times> 'v) list \<Rightarrow> 'k \<Rightarrow> 'v \<Rightarrow> 'v" where
  "dict_get_default d k dflt = (case dict_get d k of None \<Rightarrow> dflt | Some v \<Rightarrow> v)"

text \<open>
  How an f-string renders a value: a string is inserted as it is; for every other object
  the text is what \<^verbatim>\<open>str()\<close> gives, which is taken as the parameter \<open>repr\<close>.
\<close>

definition py_str :: "(pyobj \<Rightarrow> pystr) \<Rightarrow> pyobj \<Rightarrow> pystr" where
  "py_str repr v = (case v of PStr s \<Rightarrow> s | _ \<Rightarrow> repr v)"

definition format_doc :: "(pyobj \<Rightarrow> pystr) \<Rightarrow> document \<Rightarrow> pystr" where
  "format_doc repr doc =
     lit ''Source: '' @
     py_str repr (dict_get_default (metadata doc) (lit ''source'') (PStr (lit ''Unknown''))) @
     [10] @ lit ''Content: '' @ page_content doc"

definition format_docs :: "(pyobj \<Rightarrow> pystr) \<Rightarrow> document list \<Rightarrow> pystr" where
  "format_docs repr docs =
     (if docs = [] then lit ''No relevant context found in the documents.''
      else join_str [10, 10] (map (format_doc repr) docs))"

text \<open>
  The record of one fragment in the words of the specification: two lines,
  \<^verbatim>\<open>Source: <source>\<close> and \<^verbatim>\<open>Content: <content>\<close>, the source being \<^verbatim>\<open>Unknown\<close> when the
  metadata has no \<^verbatim>\<open>source\<close> entry.
\<close>

definition context_record :: "(pyobj \<Rightarrow> pystr) \<Rightarrow> document \<Rightarrow> pystr" where
  "context_record repr doc =
     lit ''Source: '' @
     (case map_of (metadata doc) (lit ''source'') of
        None \<Rightarrow> lit ''Unknown''
      | Some v \<Rightarrow> py_str repr v) @
     [10] @ lit ''Content: '' @ page_content doc"

section \<open>Pipeline construction \<^verbatim>\<open>create_rag_chain\<close>\<close>

text \<open>The eleven values read with \<^verbatim>\<open>os.getenv\<close>: \<open>None\<close> when the variable is not set.\<close>

record config =
  AZURE_OPENAI_ENDPOINT_EMBEDDINGS :: "pystr option"
  AZURE_OPENAI_API_KEY_EMBEDDINGS :: "pystr option"
  AZURE_OPENAI_EMBEDDING_DEPLOYMENT_NAME :: "pystr option"
  AZURE_OPENAI_API_VERSION_EMBEDDINGS :: "pystr option"
  AZURE_OPENAI_ENDPOINT_CHAT :: "pystr option"
  AZURE_OPENAI_API_KEY_CHAT :: "pystr option"
  AZURE_OPENAI_CHAT_DEPLOYMENT_NAME :: "pystr option"
  AZURE_OPENAI_API_VERSION_CHAT :: "pystr option"
  AZURE_AI_SEARCH_ENDPOINT :: "pystr option"
  AZURE_AI_SEARCH_API_KEY :: "pystr option"
  AZURE_AI_SEARCH_INDEX_NAME :: "pystr option"

text \<open>\<^verbatim>\<open>all([...])\<close> over such values: \<open>None\<close> and the empty string are falsy.\<close>

definition all_set :: "pystr option list \<Rightarrow> bool" where
  "all_set vs = list_all (\<lambda>v. case v of None \<Rightarrow> False | Some s \<Rightarrow> s \<noteq> []) vs"

definition embeddings_group :: "config \<Rightarrow> pystr option list" where
  "embeddings_group env =
     [AZURE_OPENAI_ENDPOINT_EMBEDDINGS env, AZURE_OPENAI_API_KEY_EMBEDDINGS env,
      AZURE_OPENAI_EMBEDDING_DEPLOYMENT_NAME env, AZURE_OPENAI_API_VERSION_EMBEDDINGS env]"

definition chat_group :: "config \<Rightarrow> pystr option list" where
  "chat_group env =
     [AZURE_OPENAI_ENDPOINT_CHAT env, AZURE_OPENAI_API_KEY_CHAT env,
      AZURE_OPENAI_CHAT_DEPLOYMENT_NAME env, AZURE_OPENAI_API_VERSION_CHAT env]"

definition search_group :: "config \<Rightarrow> pystr option list" where
  "search_group env =
     [AZURE_AI_SEARCH_ENDPOINT env, AZURE_AI_SEARCH_API_KEY env, AZURE_AI_SEARCH_INDEX_NAME env]"

text \<open>
  \<open>construct\<close> is the body of the \<^verbatim>\<open>try\<close> block up to the composed chain: the constructors
  of the Azure clients, the retriever, the prompt template and the composition. They are
  library code; \<open>Inl e\<close> is one of them raising \<open>e\<close>, \<open>Inr c\<close> the composed chain.
  The result is the returned value with the records written to the log.
\<close>

definition create_rag_chain ::
  "config \<Rightarrow> (config \<Rightarrow> exn + chain) \<Rightarrow> chain option \<times> log_record list" where
  "create_rag_chain env construct =
     (let started = [LogRecord INFO (lit ''Attempting to initialize RAG chain...'') None] in
      if \<not> all_set (embeddings_group env) then
        (None, started @
           [LogRecord ERROR (lit ''Azure OpenAI Embeddings environment variables are not fully set.'') None])
      else if \<not> all_set (chat_group env) then
        (None, started @
           [LogRecord ERROR (lit ''Azure OpenAI Chat environment variables are not fully set.'') None])
      else if \<not> all_set (search_group env) then
        (None, started @
           [LogRecord ERROR (lit ''Azure AI Search environment variables are not fully set.'') None])
      else
        (case construct env of
           Inr rag_chain \<Rightarrow>
             (Some rag_chain, started @
                [LogRecord INFO (lit ''RAG chain initialized successfully.'') None])
         | Inl e \<Rightarrow>
             (None, started @
                [LogRecord ERROR (lit ''Failed to initialize RAG chain: '' @ str_exn e) None])))"

section \<open>The application state and its start\<close>

record app_state =
  rag_chain_instance_global :: "chain option"
  logged :: "log_record list"

definition startup :: "config \<Rightarrow> (config \<Rightarrow> exn + chain) \<Rightarrow> app_state" where
  "startup env construct =
     (case create_rag_chain env construct of
        (inst, recs) \<Rightarrow>
          \<lparr>rag_chain_instance_global = inst,
           logged = recs @
             (case inst of
                None \<Rightarrow> [LogRecord CRITICAL
                  (lit ''CRITICAL: RAG Chain could not be initialized on startup. The /chat endpoint will not work.'')
                  None]
              | Some c \<Rightarrow> [])\<rparr>)"

section \<open>The endpoint \<^verbatim>\<open>/chat\<close>\<close>

text \<open>
  A response: \<^verbatim>\<open>jsonify(body), status\<close>, or the \<^verbatim>\<open>Response\<close> over the generator with mimetype
  \<^verbatim>\<open>text/event-stream\<close> and the default status 200. The generator is kept as the actions it
  performs when the server consumes it.
\<close>

datatype response = JsonResponse json nat | EventStream "gen_action list"

fun status_code :: "response \<Rightarrow> nat" where
  "status_code (JsonResponse body code) = code"
| "status_code (EventStream gen) = 200"

fun is_event_stream :: "response \<Rightarrow> bool" where
  "is_event_stream (JsonResponse body code) = False"
| "is_event_stream (EventStream gen) = True"

text \<open>The event-stream body a response carries.\<close>

fun event_stream_body :: "response \<Rightarrow> pystr list" where
  "event_stream_body (JsonResponse body code) = []"
| "event_stream_body (EventStream gen) = sse_body gen"

text \<open>Truthiness, as \<^verbatim>\<open>not data\<close> tests it. A float is falsy when it is \<open>0.0\<close> or \<open>-0.0\<close>.\<close>

fun truthy :: "pyobj \<Rightarrow> bool" where
  "truthy PNone = False"
| "truthy (PBool b) = b"
| "truthy (PInt i) = (i \<noteq> 0)"
| "truthy (PFloat w) = (w \<noteq> 0 \<and> w \<noteq> 0x8000000000000000)"
| "truthy (PStr s) = (s \<noteq> [])"
| "truthy (PList xs) = (xs \<noteq> [])"
| "truthy (PDict d) = (d \<noteq> [])"

fun type_name :: "pyobj \<Rightarrow> pystr" where
  "type_name PNone = lit ''NoneType''"
| "type_name (PBool b) = lit ''bool''"
| "type_name (PInt i) = lit ''int''"
| "type_name (PFloat w) = lit ''float''"
| "type_name (PStr s) = lit ''str''"
| "type_name (PList xs) = lit ''list''"
| "type_name (PDict d) = lit ''dict''"

text \<open>
  \<^verbatim>\<open>'query' in data\<close>: a key of a dict, an element of a list, a substring of a string, and a
  \<^verbatim>\<open>TypeError\<close> on the other objects (the message in the wording of CPython 3.8 to 3.13;
  39 is the apostrophe).
\<close>

fun query_in :: "pyobj \<Rightarrow> exn + bool" where
  "query_in (PDict d) = Inr (dict_get d (lit ''query'') \<noteq> None)"
| "query_in (PList xs) = Inr (PStr (lit ''query'') \<in> set xs)"
| "query_in (PStr s) = Inr (sublist (lit ''query'') s)"
| "query_in v =
     Inl (OtherException
       (lit ''argument of type '' @ [39] @ type_name v @ [39] @ lit '' is not iterable''))"

text \<open>
  \<^verbatim>\<open>data['query']\<close>: the value of a dict (\<^verbatim>\<open>KeyError\<close> without the key), and a
  \<^verbatim>\<open>TypeError\<close> on every other object (wording of CPython 3.11 to 3.13).
\<close>

fun getitem_query :: "pyobj \<Rightarrow> exn + pyobj" where
  "getitem_query (PDict d) =
     (case dict_get d (lit ''query'') of
        Some v \<Rightarrow> Inr v
      | None \<Rightarrow> Inl (OtherException ([39] @ lit ''query'' @ [39])))"
| "getitem_query (PList xs) =
     Inl (OtherException (lit ''list indices must be integers or slices, not str''))"
| "getitem_query (PStr s) =
     Inl (OtherException (lit ''string indices must be integers, not '' @ [39] @ lit ''str'' @ [39]))"
| "getitem_query v =
     Inl (OtherException ([39] @ type_name v @ [39] @ lit '' object is not subscriptable''))"

text \<open>\<^verbatim>\<open>not data or 'query' not in data\<close>, with the short circuit of \<^verbatim>\<open>or\<close>.\<close>

definition query_missing :: "pyobj \<Rightarrow> exn + bool" where
  "query_missing data =
     (if \<not> truthy data then Inr True
      else (case query_in data of Inl e \<Rightarrow> Inl e | Inr b \<Rightarrow> Inr (\<not> b)))"

text \<open>
  The body of the \<^verbatim>\<open>try\<close> block of \<^verbatim>\<open>chat_endpoint\<close>. Its argument \<open>get_json\<close> is what the call
  \<^verbatim>\<open>request.get_json()\<close> does on the request: \<open>Inl e\<close> when Flask raises \<open>e\<close>, \<open>Inr data\<close>
  when it returns the parsed body. The result is \<open>Inl e\<close> when the block raises \<open>e\<close>, and
  the response with the log records otherwise.
\<close>

definition chat_try :: "chain \<Rightarrow> exn + pyobj \<Rightarrow> exn + (response \<times> log_record list)" where
  "chat_try rag_chain get_json =
     (case get_json of
        Inl e \<Rightarrow> Inl e
      | Inr data \<Rightarrow>
          (case query_missing data of
             Inl e \<Rightarrow> Inl e
           | Inr True \<Rightarrow>
               Inr (JsonResponse
                      (JObj [(lit ''error'', JStr (lit ''Missing 'query' field in request body''))]) 400,
                    [LogRecord WARNING (lit ''Received bad request: 'query' field missing.'') None])
           | Inr False \<Rightarrow>
               (case getitem_query data of
                  Inl e \<Rightarrow> Inl e
                | Inr user_query \<Rightarrow>
                    Inr (EventStream (generate_stream rag_chain user_query),
                         [LogRecord INFO (lit ''Received query for streaming: '') (Some user_query)]))))"

text \<open>The two \<^verbatim>\<open>except\<close> clauses of \<^verbatim>\<open>chat_endpoint\<close>.\<close>

fun chat_except :: "exn \<Rightarrow> response \<times> log_record list" where
  "chat_except (RateLimitError m) =
     (JsonResponse
        (JObj [(lit ''error'', JStr (lit ''API rate limit exceeded. Please try again later.''))]) 429,
      [LogRecord WARNING (lit ''Rate limit exceeded (before stream): '' @ m) None])"
| "chat_except (OtherException m) =
     (JsonResponse
        (JObj [(lit ''error'', JStr (lit ''An internal error occurred: '' @ m))]) 500,
      [LogRecord ERROR (lit ''Error processing chat request (before stream): '' @ m) None])"

definition chat_endpoint :: "app_state \<Rightarrow> exn + pyobj \<Rightarrow> response \<times> app_state" where
  "chat_endpoint s get_json =
     (case rag_chain_instance_global s of
        None \<Rightarrow>
          (JsonResponse
             (JObj [(lit ''error'', JStr (lit ''RAG chain not initialized. Server configuration issue.''))]) 500,
           s\<lparr>logged := logged s @
              [LogRecord ERROR (lit ''RAG chain is not initialized. Cannot process request.'') None]\<rparr>)
      | Some rag_chain \<Rightarrow>
          (case (case chat_try rag_chain get_json of Inl e \<Rightarrow> chat_except e | Inr r \<Rightarrow> r) of
             (resp, recs) \<Rightarrow> (resp, s\<lparr>logged := logged s @ recs\<rparr>)))"

text \<open>
  A body without a query, in the words of the specification: the body is absent or
  empty (\<^verbatim>\<open>get_json\<close> returns a falsy value), or it is an object that lacks the key.
\<close>

definition no_query :: "pyobj \<Rightarrow> bool" where
  "no_query data =
     (\<not> truthy data \<or> (case data of PDict d \<Rightarrow> dict_get d (lit ''query'') = None | _ \<Rightarrow> False))"


section \<open>The endpoint \<^verbatim>\<open>/health\<close>\<close>



section \<open>Notions used in the statements\<close>

fun level_of :: "log_record \<Rightarrow> level" where
  "level_of (LogRecord l m v) = l"

text \<open>Every configuration group is fully set.\<close>

definition config_complete :: "config \<Rightarrow> bool" where
  "config_complete env =
     (all_set (embeddings_group env) \<and> all_set (chat_group env) \<and> all_set (search_group env))"

text \<open>
  Test doubles: a pipeline whose stream behaves the same on every query, a construction
  step with a fixed outcome, and a configuration with every variable set.
\<close>

definition chain_of :: "token_stream \<Rightarrow> chain" where
  "chain_of ts = \<lparr>stream = \<lambda>q. ts\<rparr>"

definition construct_outcome :: "exn + chain \<Rightarrow> config \<Rightarrow> exn + chain" where
  "construct_outcome r env = r"

definition env_full :: config where
  "env_full =
     \<lparr>AZURE_OPENAI_ENDPOINT_EMBEDDINGS = Some (lit ''https://emb.example''),
      AZURE_OPENAI_API_KEY_EMBEDDINGS = Some (lit ''k1''),
      AZURE_OPENAI_EMBEDDING_DEPLOYMENT_NAME = Some (lit ''embed''),
      AZURE_OPENAI_API_VERSION_EMBEDDINGS = Some (lit ''2024-02-01''),
      AZURE_OPENAI_ENDPOINT_CHAT = Some (lit ''https://chat.example''),
      AZURE_OPENAI_API_KEY_CHAT = Some (lit ''k2''),
      AZURE_OPENAI_CHAT_DEPLOYMENT_NAME = Some (lit ''chat''),
      AZURE_OPENAI_API_VERSION_CHAT = Some (lit ''2024-02-01''),
      AZURE_AI_SEARCH_ENDPOINT = Some (lit ''https://search.example''),
      AZURE_AI_SEARCH_API_KEY = Some (lit ''k3''),
      AZURE_AI_SEARCH_INDEX_NAME = Some (lit ''docs'')\<rparr>"

section \<open>Properties of the generator\<close>

lemma sse_body_append: "sse_body (xs @ ys) = sse_body xs @ sse_body ys"
  by (induction xs rule: sse_body.induct) simp_all

lemma token_json:
  "lit ''data: '' @ json_dumps (JObj [(lit ''token'', JStr chunk)]) @ [10, 10] = token_record chunk"
  by (simp add: token_record_def lit_def encode_str_def escape_char_def)

lemma sse_body_stream_loop:
  "sse_body (stream_loop chunks) = map token_record (filter (\<lambda>chunk. chunk \<noteq> []) chunks)"
  by (induction chunks) (simp_all add: token_json sse_body_append del: json_dumps.simps)

lemma is_error_token [simp]: "\<not> is_error_record (token_record c)"
  by (simp add: is_error_record_def token_record_def lit_def)

lemma is_token_token [simp]: "is_token_record (token_record c)"
  by (simp add: is_token_record_def token_record_def)

lemma is_error_error [simp]: "is_error_record (error_record p)"
  by (simp add: is_error_record_def error_record_def)

lemma is_token_error [simp]: "\<not> is_token_record (error_record p)"
  by (simp add: is_token_record_def error_record_def lit_def)

lemma sse_body_stream_except:
  "sse_body (stream_except e) =
     [error_record (case e of RateLimitError m \<Rightarrow> rate_limit_payload
                    | OtherException m \<Rightarrow> stream_error_payload e)]"
  by (cases e) (simp_all add: error_record_def del: json_dumps.simps)

lemma sse_body_generate_stream:
  "stream rag_chain q = (chunks, raised) \<Longrightarrow>
   sse_body (generate_stream rag_chain q) =
     map token_record (filter (\<lambda>chunk. chunk \<noteq> []) chunks) @
     (case raised of None \<Rightarrow> [] | Some e \<Rightarrow> sse_body (stream_except e))"
  by (simp add: generate_stream_def sse_body_append sse_body_stream_loop split: option.splits)

text \<open>
  Claim C1. When the stream of the pipeline yields the chunks \<open>chunks\<close> and is then
  exhausted, the body of the event stream is exactly the token records of the non-empty
  chunks, in the order of generation; the empty chunks are dropped.
\<close>

theorem generate_stream_tokens_in_order:
  "stream rag_chain q = (chunks, None) \<Longrightarrow>
   sse_body (generate_stream rag_chain q) =
     map token_record (filter (\<lambda>chunk. chunk \<noteq> []) chunks)"
  by (simp add: sse_body_generate_stream)

text \<open>The chunks \<^verbatim>\<open>["Hel", "lo", "", " world"]\<close> give the three records of the specification.\<close>

theorem generate_stream_tokens_in_order_witness:
  "stream (chain_of ([lit ''Hel'', lit ''lo'', [], lit '' world''], None)) (PStr (lit ''hi'')) =
     ([lit ''Hel'', lit ''lo'', [], lit '' world''], None) \<and>
   sse_body (generate_stream (chain_of ([lit ''Hel'', lit ''lo'', [], lit '' world''], None))
               (PStr (lit ''hi''))) =
     [lit ''data: {\"token\": \"Hel\"}'' @ [10, 10],
      lit ''data: {\"token\": \"lo\"}'' @ [10, 10],
      lit ''data: {\"token\": \" world\"}'' @ [10, 10]]"
  using generate_stream_tokens_in_order
    [of "chain_of ([lit ''Hel'', lit ''lo'', [], lit '' world''], None)" "PStr (lit ''hi'')"
        "[lit ''Hel'', lit ''lo'', [], lit '' world'']"]
  by (simp add: chain_of_def token_record_def encode_str_def escape_char_def lit_def)

text \<open>
  Claim C2. When the stream raises the rate-limit exception after the chunks \<open>chunks\<close>, the
  body is the token records of the non-empty chunks followed by one error record; that
  record is the only error record and no token record follows it; its payload has the
  field \<^verbatim>\<open>code\<close> with the value 429.
\<close>

theorem generate_stream_rate_limit:
  "stream rag_chain q = (chunks, Some (RateLimitError m)) \<Longrightarrow>
   sse_body (generate_stream rag_chain q) =
     map token_record (filter (\<lambda>chunk. chunk \<noteq> []) chunks) @ [error_record rate_limit_payload] \<and>
   filter is_token_record (sse_body (generate_stream rag_chain q)) =
     map token_record (filter (\<lambda>chunk. chunk \<noteq> []) chunks) \<and>
   filter is_error_record (sse_body (generate_stream rag_chain q)) =
     [error_record rate_limit_payload] \<and>
   json_get rate_limit_payload (lit ''code'') = Some (JInt 429)"
proof -
  assume raised: "stream rag_chain q = (chunks, Some (RateLimitError m))"
  have body: "sse_body (generate_stream rag_chain q) =
      map token_record (filter (\<lambda>chunk. chunk \<noteq> []) chunks) @ [error_record rate_limit_payload]"
    using raised
    by (simp add: sse_body_generate_stream sse_body_stream_except del: stream_except.simps)
  have code: "json_get rate_limit_payload (lit ''code'') = Some (JInt 429)"
    by (simp add: rate_limit_payload_def dict_get_def lit_def)
  show ?thesis
    unfolding body using code by (simp add: filter_map comp_def)
qed

theorem generate_stream_rate_limit_witness:
  "stream (chain_of ([lit ''A'', lit ''B''], Some (RateLimitError (lit ''Too Many Requests''))))
     (PStr (lit ''hi'')) =
     ([lit ''A'', lit ''B''], Some (RateLimitError (lit ''Too Many Requests''))) \<and>
   sse_body (generate_stream
               (chain_of ([lit ''A'', lit ''B''], Some (RateLimitError (lit ''Too Many Requests''))))
               (PStr (lit ''hi''))) =
     [lit ''data: {\"token\": \"A\"}'' @ [10, 10],
      lit ''data: {\"token\": \"B\"}'' @ [10, 10],
      lit ''event: error'' @ [10] @
      lit ''data: {\"error\": \"API rate limit exceeded during stream. Please try again later.\", \"code\": 429}'' @
      [10, 10]]"
  using generate_stream_rate_limit
    [of "chain_of ([lit ''A'', lit ''B''], Some (RateLimitError (lit ''Too Many Requests'')))"
        "PStr (lit ''hi'')" "[lit ''A'', lit ''B'']" "lit ''Too Many Requests''"]
  by (simp add: chain_of_def token_record_def error_record_def rate_limit_payload_def
      encode_str_def escape_char_def lit_def int_repr_def nat_repr.simps)

text \<open>
  Claim C3. When the stream raises an exception that is not the rate-limit exception
  after the chunks \<open>chunks\<close>, the body is the token records of the non-empty chunks followed
  by one error record; that record is the only error record and no token record follows
  it; its payload has the field \<^verbatim>\<open>error\<close> with the message and no field \<^verbatim>\<open>code\<close>.
\<close>

theorem generate_stream_other_exception:
  "stream rag_chain q = (chunks, Some (OtherException m)) \<Longrightarrow>
   sse_body (generate_stream rag_chain q) =
     map token_record (filter (\<lambda>chunk. chunk \<noteq> []) chunks) @
     [error_record (stream_error_payload (OtherException m))] \<and>
   filter is_token_record (sse_body (generate_stream rag_chain q)) =
     map token_record (filter (\<lambda>chunk. chunk \<noteq> []) chunks) \<and>
   filter is_error_record (sse_body (generate_stream rag_chain q)) =
     [error_record (stream_error_payload (OtherException m))] \<and>
   json_get (stream_error_payload (OtherException m)) (lit ''error'') =
     Some (JStr (lit ''An error occurred during streaming: '' @ m)) \<and>
   json_get (stream_error_payload (OtherException m)) (lit ''code'') = None"
proof -
  assume raised: "stream rag_chain q = (chunks, Some (OtherException m))"
  have body: "sse_body (generate_stream rag_chain q) =
      map token_record (filter (\<lambda>chunk. chunk \<noteq> []) chunks) @
      [error_record (stream_error_payload (OtherException m))]"
    using raised
    by (simp add: sse_body_generate_stream sse_body_stream_except del: stream_except.simps)
  have fields:
    "json_get (stream_error_payload (OtherException m)) (lit ''error'') =
       Some (JStr (lit ''An error occurred during streaming: '' @ m))"
    "json_get (stream_error_payload (OtherException m)) (lit ''code'') = None"
    by (simp_all add: stream_error_payload_def dict_get_def lit_def)
  show ?thesis
    unfolding body using fields by (simp add: filter_map comp_def)
qed

theorem generate_stream_other_exception_witness:
  "stream (chain_of ([lit ''A'', [], lit ''B''], Some (OtherException (lit ''Connection \"reset\"''))))
     (PStr (lit ''hi'')) =
     ([lit ''A'', [], lit ''B''], Some (OtherException (lit ''Connection \"reset\"''))) \<and>
   sse_body (generate_stream
               (chain_of ([lit ''A'', [], lit ''B''], Some (OtherException (lit ''Connection \"reset\"''))))
               (PStr (lit ''hi''))) =
     [lit ''data: {\"token\": \"A\"}'' @ [10, 10],
      lit ''data: {\"token\": \"B\"}'' @ [10, 10],
      lit ''event: error'' @ [10] @
      lit ''data: {\"error\": \"An error occurred during streaming: Connection '' @ [92, 34] @
      lit ''reset'' @ [92, 34] @ lit ''\"}'' @ [10, 10]]"
  using generate_stream_other_exception
    [of "chain_of ([lit ''A'', [], lit ''B''], Some (OtherException (lit ''Connection \"reset\"'')))"
        "PStr (lit ''hi'')" "[lit ''A'', [], lit ''B'']" "lit ''Connection \"reset\"''"]
  by (simp add: chain_of_def token_record_def error_record_def stream_error_payload_def
      encode_str_def escape_char_def lit_def)

section \<open>Properties of the endpoint \<^verbatim>\<open>/chat\<close>\<close>

lemma chat_endpoint_absent:
  "rag_chain_instance_global s = None \<Longrightarrow>
   fst (chat_endpoint s g) =
     JsonResponse
       (JObj [(lit ''error'', JStr (lit ''RAG chain not initialized. Server configuration issue.''))]) 500"
  by (simp add: chat_endpoint_def)

lemma chat_endpoint_present:
  "rag_chain_instance_global s = Some c \<Longrightarrow>
   fst (chat_endpoint s g) = fst (case chat_try c g of Inl e \<Rightarrow> chat_except e | Inr r \<Rightarrow> r)"
  by (simp add: chat_endpoint_def split: prod.splits)

lemma query_missing_no_query: "no_query data \<Longrightarrow> query_missing data = Inr True"
  by (cases data) (auto simp: no_query_def query_missing_def)

lemma chat_try_no_query:
  "no_query data \<Longrightarrow>
   chat_try c (Inr data) =
     Inr (JsonResponse (JObj [(lit ''error'', JStr (lit ''Missing 'query' field in request body''))]) 400,
          [LogRecord WARNING (lit ''Received bad request: 'query' field missing.'') None])"
  by (simp add: chat_try_def query_missing_no_query)

lemma chat_try_query:
  "dict_get d (lit ''query'') = Some v \<Longrightarrow>
   chat_try c (Inr (PDict d)) =
     Inr (EventStream (generate_stream c v),
          [LogRecord INFO (lit ''Received query for streaming: '') (Some v)])"
  by (auto simp: chat_try_def query_missing_def dict_get_def)

text \<open>
  Claim C4, as stated, fails: without a pipeline the first check of the endpoint answers
  a body that lacks the key with status 500, not 400.
\<close>

theorem chat_missing_query_without_chain:
  "no_query (PDict []) \<and>
   fst (chat_endpoint \<lparr>rag_chain_instance_global = None, logged = []\<rparr> (Inr (PDict []))) \<noteq>
     JsonResponse (JObj [(lit ''error'', JStr (lit ''Missing 'query' field in request body''))]) 400 \<and>
   status_code (fst (chat_endpoint \<lparr>rag_chain_instance_global = None, logged = []\<rparr> (Inr (PDict [])))) = 500"
  by (simp add: no_query_def chat_endpoint_def)

text \<open>
  Claim C4, amended. For every body without a query (\<^verbatim>\<open>get_json\<close> returns a falsy value or
  an object that lacks the key): with the pipeline present the endpoint returns status 400
  with the fixed body, with the pipeline absent it returns status 500 with the fixed
  body of the missing pipeline; in both cases the response is no event stream and no
  event-stream body is produced.
\<close>

theorem chat_missing_query:
  "no_query data \<Longrightarrow>
   fst (chat_endpoint s (Inr data)) =
     (case rag_chain_instance_global s of
        Some rag_chain \<Rightarrow>
          JsonResponse (JObj [(lit ''error'', JStr (lit ''Missing 'query' field in request body''))]) 400
      | None \<Rightarrow>
          JsonResponse
            (JObj [(lit ''error'', JStr (lit ''RAG chain not initialized. Server configuration issue.''))]) 500) \<and>
   \<not> is_event_stream (fst (chat_endpoint s (Inr data))) \<and>
   event_stream_body (fst (chat_endpoint s (Inr data))) = []"
proof -
  assume nq: "no_query data"
  show ?thesis
  proof (cases "rag_chain_instance_global s")
    case None
    then show ?thesis by (simp add: chat_endpoint_absent)
  next
    case (Some c)
    then show ?thesis by (simp add: chat_endpoint_present chat_try_no_query [OF nq])
  qed
qed

theorem chat_missing_query_witness:
  "no_query (PDict [(lit ''question'', PStr (lit ''hi''))]) \<and>
   fst (chat_endpoint \<lparr>rag_chain_instance_global = Some (chain_of ([lit ''A''], None)), logged = []\<rparr>
          (Inr (PDict [(lit ''question'', PStr (lit ''hi''))]))) =
     JsonResponse (JObj [(lit ''error'', JStr (lit ''Missing 'query' field in request body''))]) 400 \<and>
   event_stream_body
     (fst (chat_endpoint \<lparr>rag_chain_instance_global = Some (chain_of ([lit ''A''], None)), logged = []\<rparr>
             (Inr (PDict [(lit ''question'', PStr (lit ''hi''))])))) = []"
proof -
  have nq: "no_query (PDict [(lit ''question'', PStr (lit ''hi''))])"
    by (simp add: no_query_def dict_get_def lit_def)
  show ?thesis
    using nq chat_missing_query
      [OF nq, of "\<lparr>rag_chain_instance_global = Some (chain_of ([lit ''A''], None)), logged = []\<rparr>"]
    by simp
qed

text \<open>
  Claim C5, as stated, fails: with the pipeline present, a body whose query is the empty
  string is answered with an event stream, and the body of that stream is what the
  pipeline streams.
\<close>

theorem chat_empty_query_streams:
  "is_event_stream
     (fst (chat_endpoint \<lparr>rag_chain_instance_global = Some (chain_of ([lit ''A''], None)), logged = []\<rparr>
             (Inr (PDict [(lit ''query'', PStr [])])))) \<and>
   event_stream_body
     (fst (chat_endpoint \<lparr>rag_chain_instance_global = Some (chain_of ([lit ''A''], None)), logged = []\<rparr>
             (Inr (PDict [(lit ''query'', PStr [])])))) =
     [lit ''data: {\"token\": \"A\"}'' @ [10, 10]]"
  by (simp add: chat_endpoint_def chat_try_def query_missing_def dict_get_def generate_stream_def
      chain_of_def encode_str_def escape_char_def lit_def)

text \<open>
  Claim C5, amended. A request whose query is the empty string is not rejected for that
  reason: with the pipeline present the endpoint returns the event stream of the
  generator, which streams the pipeline on the empty query; only with the pipeline
  absent is the request answered with status 500 before any pipeline invocation.
\<close>

theorem chat_empty_query_accepted:
  "dict_get d (lit ''query'') = Some (PStr []) \<Longrightarrow>
   fst (chat_endpoint s (Inr (PDict d))) =
     (case rag_chain_instance_global s of
        Some rag_chain \<Rightarrow> EventStream (generate_stream rag_chain (PStr []))
      | None \<Rightarrow>
          JsonResponse
            (JObj [(lit ''error'', JStr (lit ''RAG chain not initialized. Server configuration issue.''))]) 500)"
  by (cases "rag_chain_instance_global s")
     (simp_all add: chat_endpoint_absent chat_endpoint_present chat_try_query)

theorem chat_empty_query_accepted_witness:
  "dict_get [(lit ''query'', PStr [])] (lit ''query'') = Some (PStr []) \<and>
   fst (chat_endpoint \<lparr>rag_chain_instance_global = Some (chain_of ([lit ''A''], None)), logged = []\<rparr>
          (Inr (PDict [(lit ''query'', PStr [])]))) =
     EventStream (generate_stream (chain_of ([lit ''A''], None)) (PStr []))"
proof -
  have q: "dict_get [(lit ''query'', PStr [])] (lit ''query'') = Some (PStr [])"
    by (simp add: dict_get_def)
  show ?thesis
    using q chat_empty_query_accepted
      [OF q, of "\<lparr>rag_chain_instance_global = Some (chain_of ([lit ''A''], None)), logged = []\<rparr>"]
    by simp
qed

text \<open>
  Claim C7. With the pipeline present, when the \<^verbatim>\<open>try\<close> block raises an exception before the
  response over the generator is built, the endpoint returns a JSON response and no event
  stream: status 429 with a fixed error body for the rate-limit exception, status 500
  with the message of the exception in the error body otherwise.
\<close>

theorem chat_pre_stream_exception:
  "rag_chain_instance_global s = Some rag_chain \<Longrightarrow> chat_try rag_chain get_json = Inl e \<Longrightarrow>
   fst (chat_endpoint s get_json) =
     (case e of
        RateLimitError m \<Rightarrow>
          JsonResponse (JObj [(lit ''error'', JStr (lit ''API rate limit exceeded. Please try again later.''))]) 429
      | OtherException m \<Rightarrow>
          JsonResponse (JObj [(lit ''error'', JStr (lit ''An internal error occurred: '' @ m))]) 500) \<and>
   \<not> is_event_stream (fst (chat_endpoint s get_json)) \<and>
   status_code (fst (chat_endpoint s get_json)) =
     (case e of RateLimitError m \<Rightarrow> 429 | OtherException m \<Rightarrow> 500)"
  by (cases e) (simp_all add: chat_endpoint_present)

text \<open>The body \<^verbatim>\<open>5\<close>: the membership test raises a \<^verbatim>\<open>TypeError\<close>.\<close>

theorem chat_pre_stream_exception_witness:
  "rag_chain_instance_global
     \<lparr>rag_chain_instance_global = Some (chain_of ([lit ''A''], None)), logged = []\<rparr> =
     Some (chain_of ([lit ''A''], None)) \<and>
   chat_try (chain_of ([lit ''A''], None)) (Inr (PInt 5)) =
     Inl (OtherException (lit ''argument of type 'int' is not iterable'')) \<and>
   fst (chat_endpoint \<lparr>rag_chain_instance_global = Some (chain_of ([lit ''A''], None)), logged = []\<rparr>
          (Inr (PInt 5))) =
     JsonResponse
       (JObj [(lit ''error'',
               JStr (lit ''An internal error occurred: argument of type 'int' is not iterable''))]) 500"
proof -
  have present: "rag_chain_instance_global
      \<lparr>rag_chain_instance_global = Some (chain_of ([lit ''A''], None)), logged = []\<rparr> =
      Some (chain_of ([lit ''A''], None))"
    by simp
  have raised: "chat_try (chain_of ([lit ''A''], None)) (Inr (PInt 5)) =
      Inl (OtherException (lit ''argument of type 'int' is not iterable''))"
    by (simp add: chat_try_def query_missing_def lit_def)
  show ?thesis
    using present raised chat_pre_stream_exception [OF present raised] by (simp add: lit_def)
qed

text \<open>
  Claim C10. With the pipeline present, when \<^verbatim>\<open>request.get_json()\<close> raises on a body it
  cannot parse (an exception that is not the rate-limit exception), the endpoint returns
  status 500 with the body \<^verbatim>\<open>{"error": "An internal error occurred: <message>"}\<close>, and not
  the response of status 400.
\<close>

theorem chat_get_json_raises:
  "rag_chain_instance_global s = Some rag_chain \<Longrightarrow>
   fst (chat_endpoint s (Inl (OtherException m))) =
     JsonResponse (JObj [(lit ''error'', JStr (lit ''An internal error occurred: '' @ m))]) 500 \<and>
   status_code (fst (chat_endpoint s (Inl (OtherException m)))) \<noteq> 400"
  by (simp add: chat_endpoint_present chat_try_def)

theorem chat_get_json_raises_witness:
  "rag_chain_instance_global
     \<lparr>rag_chain_instance_global = Some (chain_of ([lit ''A''], None)), logged = []\<rparr> =
     Some (chain_of ([lit ''A''], None)) \<and>
   fst (chat_endpoint \<lparr>rag_chain_instance_global = Some (chain_of ([lit ''A''], None)), logged = []\<rparr>
          (Inl (OtherException (lit ''400 Bad Request: Failed to decode JSON object'')))) =
     JsonResponse
       (JObj [(lit ''error'',
               JStr (lit ''An internal error occurred: 400 Bad Request: Failed to decode JSON object''))]) 500"
proof -
  have present: "rag_chain_instance_global
      \<lparr>rag_chain_instance_global = Some (chain_of ([lit ''A''], None)), logged = []\<rparr> =
      Some (chain_of ([lit ''A''], None))"
    by simp
  show ?thesis
    using present chat_get_json_raises
      [OF present, of "lit ''400 Bad Request: Failed to decode JSON object''"]
    by (simp add: lit_def)
qed

section \<open>Properties of the context formatter\<close>

lemma join_str_Cons: "join_str sep (x # xs) = x @ concat (map (\<lambda>y. sep @ y) xs)"
  by (induction xs arbitrary: x) simp_all

lemma format_doc_context_record: "format_doc repr doc = context_record repr doc"
  by (simp add: format_doc_def context_record_def dict_get_default_def dict_get_def py_str_def
      split: option.splits)

text \<open>
  Claim C6. The formatter is a function of the fragment sequence alone. On the empty
  sequence it returns the sentinel text; on a non-empty sequence it returns the records
  of the fragments in the order of retrieval, each after the first preceded by a blank
  line, the source being \<^verbatim>\<open>Unknown\<close> where the metadata has none.
\<close>

theorem format_docs_layout:
  "format_docs repr [] = lit ''No relevant context found in the documents.'' \<and>
   format_docs repr (doc # docs) =
     context_record repr doc @ concat (map (\<lambda>d. [10, 10] @ context_record repr d) docs)"
  by (simp add: format_docs_def join_str_Cons format_doc_context_record comp_def)

theorem format_docs_layout_witness:
  "format_docs type_name
     [\<lparr>page_content = lit ''alpha'', metadata = [(lit ''source'', PStr (lit ''a.md''))]\<rparr>,
      \<lparr>page_content = lit ''beta'', metadata = []\<rparr>] =
   lit ''Source: a.md'' @ [10] @ lit ''Content: alpha'' @ [10, 10] @
   lit ''Source: Unknown'' @ [10] @ lit ''Content: beta''"
  using format_docs_layout
    [of type_name "\<lparr>page_content = lit ''alpha'', metadata = [(lit ''source'', PStr (lit ''a.md''))]\<rparr>"
        "[\<lparr>page_content = lit ''beta'', metadata = []\<rparr>]"]
  by (simp add: context_record_def py_str_def lit_def)

section \<open>Properties of the construction\<close>

text \<open>
  Claim C8. \<^verbatim>\<open>create_rag_chain\<close> always returns. With an incomplete configuration group
  it returns \<open>None\<close> after an error record; with a complete configuration, when the
  construction raises \<open>e\<close> it returns \<open>None\<close> after the error record with the message of
  \<open>e\<close>, and when the construction succeeds it returns the pipeline.
\<close>

theorem create_rag_chain_returns:
  "(\<not> config_complete env \<longrightarrow>
      fst (create_rag_chain env construct) = None \<and>
      level_of (last (snd (create_rag_chain env construct))) = ERROR) \<and>
   (config_complete env \<longrightarrow>
      (case construct env of
         Inl e \<Rightarrow>
           fst (create_rag_chain env construct) = None \<and>
           last (snd (create_rag_chain env construct)) =
             LogRecord ERROR (lit ''Failed to initialize RAG chain: '' @ str_exn e) None
       | Inr rag_chain \<Rightarrow> fst (create_rag_chain env construct) = Some rag_chain))"
  by (auto simp: config_complete_def create_rag_chain_def Let_def split: sum.splits)

theorem create_rag_chain_returns_witness:
  "\<not> config_complete (env_full\<lparr>AZURE_AI_SEARCH_API_KEY := Some []\<rparr>) \<and>
   fst (create_rag_chain (env_full\<lparr>AZURE_AI_SEARCH_API_KEY := Some []\<rparr>)
          (construct_outcome (Inr (chain_of ([lit ''A''], None))))) = None \<and>
   config_complete env_full \<and>
   fst (create_rag_chain env_full (construct_outcome (Inl (OtherException (lit ''401 Unauthorized''))))) =
     None \<and>
   fst (create_rag_chain env_full (construct_outcome (Inr (chain_of ([lit ''A''], None))))) =
     Some (chain_of ([lit ''A''], None))"
proof -
  have incomplete: "\<not> config_complete (env_full\<lparr>AZURE_AI_SEARCH_API_KEY := Some []\<rparr>)"
    by (simp add: config_complete_def env_full_def search_group_def all_set_def)
  have complete: "config_complete env_full"
    by (simp add: config_complete_def env_full_def embeddings_group_def chat_group_def
        search_group_def all_set_def lit_def)
  show ?thesis
    using incomplete complete
      create_rag_chain_returns
        [of "env_full\<lparr>AZURE_AI_SEARCH_API_KEY := Some []\<rparr>"
            "construct_outcome (Inr (chain_of ([lit ''A''], None)))"]
      create_rag_chain_returns
        [of env_full "construct_outcome (Inl (OtherException (lit ''401 Unauthorized'')))"]
      create_rag_chain_returns
        [of env_full "construct_outcome (Inr (chain_of ([lit ''A''], None)))"]
    by (simp add: construct_outcome_def)
qed

section \<open>Properties of the endpoint \<^verbatim>\<open>/health\<close>\<close>



end
